theory Spec2Isabelle
  imports Complex_Main
begin

text \<open>
  A shallow embedding of the OpenSBP runtime (\<open>runtime/opensbp.js\<close>) and of its transformation
  library (\<open>runtime/opensbp/transformation.js\<close>). The definitions come first, in the order
  of the sources; the properties follow. Names are the source's, without the leading
  underscore of the private methods (\<open>_eval\<close> is \<open>eval\<close>, \<open>_execute\<close> is \<open>execute\<close>).
\<close>

section \<open>JavaScript numbers\<close>

text \<open>
  A JavaScript number is an IEEE-754 double. The embedding keeps the three special values the
  interpreter can produce (\<open>NaN\<close>, \<open>Infinity\<close>, \<open>-Infinity\<close>) and writes a finite double as the
  real it denotes. The operators below follow the IEEE rules on the special values and give
  the exact real result on finite operands. An IEEE operation gives that same result exactly
  when the result is itself a double (\<open>representable\<close> below); otherwise it rounds to a
  neighbouring double, which the operators here do not do. The sign of zero is not modelled
  either. A general statement below whose truth needs an addition to be the source's addition
  says so with \<open>representable\<close>; an evaluated example shows the exact value, and where the
  source's operation rounds, the source has the double nearest to it.
\<close>

datatype jsnum = NaN | PInf | NInf | Fin real


fun js_neg :: "jsnum \<Rightarrow> jsnum" where
  "js_neg NaN = NaN"
| "js_neg PInf = NInf"
| "js_neg NInf = PInf"
| "js_neg (Fin a) = Fin (- a)"

fun js_add :: "jsnum \<Rightarrow> jsnum \<Rightarrow> jsnum" where
  "js_add (Fin a) (Fin b) = Fin (a + b)"
| "js_add NaN y = NaN"
| "js_add x NaN = NaN"
| "js_add PInf NInf = NaN"
| "js_add NInf PInf = NaN"
| "js_add PInf y = PInf"
| "js_add NInf y = NInf"
| "js_add (Fin a) y = y"

definition js_sub :: "jsnum \<Rightarrow> jsnum \<Rightarrow> jsnum" where
  "js_sub x y = js_add x (js_neg y)"

text \<open>The sign of an infinite product: \<open>Infinity * 0\<close> is \<open>NaN\<close>.\<close>

definition js_signed_inf :: "real \<Rightarrow> jsnum" where
  "js_signed_inf a = (if a = 0 then NaN else if 0 < a then PInf else NInf)"

fun js_mul :: "jsnum \<Rightarrow> jsnum \<Rightarrow> jsnum" where
  "js_mul (Fin a) (Fin b) = Fin (a * b)"
| "js_mul NaN y = NaN"
| "js_mul x NaN = NaN"
| "js_mul PInf PInf = PInf"
| "js_mul PInf NInf = NInf"
| "js_mul NInf PInf = NInf"
| "js_mul NInf NInf = PInf"
| "js_mul PInf (Fin b) = js_signed_inf b"
| "js_mul NInf (Fin b) = js_signed_inf (- b)"
| "js_mul (Fin a) PInf = js_signed_inf a"
| "js_mul (Fin a) NInf = js_signed_inf (- a)"

text \<open>
  Division never raises in JavaScript: a finite non-zero number divided by zero is an infinity,
  zero divided by zero is \<open>NaN\<close>. (The divisor \<open>0\<close> stands for \<open>+0\<close>.)
\<close>

fun js_div :: "jsnum \<Rightarrow> jsnum \<Rightarrow> jsnum" where
  "js_div (Fin a) (Fin b) = (if b = 0 then js_signed_inf a else Fin (a / b))"
| "js_div NaN y = NaN"
| "js_div x NaN = NaN"
| "js_div (Fin a) PInf = Fin 0"
| "js_div (Fin a) NInf = Fin 0"
| "js_div PInf (Fin b) = (if 0 \<le> b then PInf else NInf)"
| "js_div NInf (Fin b) = (if 0 \<le> b then NInf else PInf)"
| "js_div x y = NaN"

fun js_lt :: "jsnum \<Rightarrow> jsnum \<Rightarrow> bool" where
  "js_lt (Fin a) (Fin b) = (a < b)"
| "js_lt NaN y = False"
| "js_lt x NaN = False"
| "js_lt x NInf = False"
| "js_lt PInf y = False"
| "js_lt NInf y = True"
| "js_lt (Fin a) PInf = True"

text \<open>\<open>x <= y\<close> is not the negation of \<open>y < x\<close>: both are false on \<open>NaN\<close>.\<close>

definition js_num_eq :: "jsnum \<Rightarrow> jsnum \<Rightarrow> bool" where
  "js_num_eq x y = (if x = NaN then False else x = y)"

definition js_le :: "jsnum \<Rightarrow> jsnum \<Rightarrow> bool" where
  "js_le x y = (if js_lt x y then True else js_num_eq x y)"

text \<open>A number is falsy when it is zero or \<open>NaN\<close>.\<close>

fun num_truthy :: "jsnum \<Rightarrow> bool" where
  "num_truthy NaN = False"
| "num_truthy (Fin a) = (a \<noteq> 0)"
| "num_truthy x = True"


section \<open>The transformation library (runtime/opensbp/transformation.js)\<close>

text \<open>
  A point is an object with the properties \<open>X\<close>, \<open>Y\<close> and \<open>Z\<close>; a property that is absent reads as
  \<open>undefined\<close>, here \<open>None\<close>. The functions mutate the point and return it; the model returns
  the new point.
\<close>

record point =
  X :: "jsnum option"
  Y :: "jsnum option"
  Z :: "jsnum option"

text \<open>The test \<open>PtNew.X\<close> of the guards: an absent, zero or \<open>NaN\<close> coordinate is falsy.\<close>

fun coord_truthy :: "jsnum option \<Rightarrow> bool" where
  "coord_truthy None = False"
| "coord_truthy (Some x) = num_truthy x"

text \<open>Arithmetic on a coordinate the guard has let through (so it is present).\<close>

fun coord_map :: "(jsnum \<Rightarrow> jsnum) \<Rightarrow> jsnum option \<Rightarrow> jsnum option" where
  "coord_map f None = None"
| "coord_map f (Some x) = Some (f x)"

text \<open>
  One statement of \<open>scale\<close>:
  \<^verbatim>\<open>if ( scaleX !== 1 && PtNew.X ) { PtNew.X = (scaleX*PtNew.X)+(scalePtX*(1-scaleX)); }\<close>
\<close>

definition scale_coord :: "jsnum option \<Rightarrow> jsnum \<Rightarrow> jsnum \<Rightarrow> jsnum option" where
  "scale_coord c scaleC scalePtC =
     (if scaleC \<noteq> Fin 1 \<and> coord_truthy c
      then coord_map (\<lambda>x. js_add (js_mul scaleC x) (js_mul scalePtC (js_sub (Fin 1) scaleC))) c
      else c)"

definition scale :: "point \<Rightarrow> jsnum \<Rightarrow> jsnum \<Rightarrow> jsnum \<Rightarrow> jsnum \<Rightarrow> point" where
  "scale PtNew scaleX scaleY scalePtX scalePtY =
     PtNew\<lparr>X := scale_coord (X PtNew) scaleX scalePtX,
            Y := scale_coord (Y PtNew) scaleY scalePtY\<rparr>"





section \<open>Values of the interpreter\<close>

text \<open>
  The values that expression evaluation, the machine status and the settings hold:
  \<open>undefined\<close>, \<open>null\<close>, booleans and numbers.
\<close>

datatype jsval = JUndefined | JNull | JBool bool | JNum jsnum

text \<open>\<open>ToNumber\<close>, applied by the arithmetic and relational operators.\<close>

fun to_number :: "jsval \<Rightarrow> jsnum" where
  "to_number JUndefined = NaN"
| "to_number JNull = Fin 0"
| "to_number (JBool b) = (if b then Fin 1 else Fin 0)"
| "to_number (JNum n) = n"

fun truthy :: "jsval \<Rightarrow> bool" where
  "truthy JUndefined = False"
| "truthy JNull = False"
| "truthy (JBool b) = b"
| "truthy (JNum n) = num_truthy n"

text \<open>
  The loose equality \<open>==\<close> on these values: \<open>undefined\<close> and \<open>null\<close> equal each other and
  nothing else; booleans and numbers are compared as numbers.
\<close>

fun js_loose_eq :: "jsval \<Rightarrow> jsval \<Rightarrow> bool" where
  "js_loose_eq JUndefined y = (y = JUndefined \<or> y = JNull)"
| "js_loose_eq JNull y = (y = JUndefined \<or> y = JNull)"
| "js_loose_eq x JUndefined = False"
| "js_loose_eq x JNull = False"
| "js_loose_eq x y = js_num_eq (to_number x) (to_number y)"

text \<open>
  \<open>parseFloat\<close> of a value that is not a string converts it to a string first: a number
  reads back as itself, \<open>"true"\<close>, \<open>"false"\<close>, \<open>"null"\<close> and \<open>"undefined"\<close> read as \<open>NaN\<close>.
\<close>

fun parseFloat_value :: "jsval \<Rightarrow> jsnum" where
  "parseFloat_value (JNum n) = n"
| "parseFloat_value v = NaN"

text \<open>\<open>args[i]\<close>: reading past the end of an array gives \<open>undefined\<close>.\<close>

definition arg_at :: "jsval list \<Rightarrow> nat \<Rightarrow> jsval" where
  "arg_at args i = (if i < length args then args ! i else JUndefined)"


section \<open>Strings: the two regular expressions and \<open>parseFloat\<close>\<close>

definition is_digit :: "char \<Rightarrow> bool" where
  "is_digit c = (c \<in> set ''0123456789'')"

definition is_ident_start :: "char \<Rightarrow> bool" where
  "is_ident_start c = (c \<in> set ''abcdefghijklmnopqrstuvwxyzABCDEFGHIJKLMNOPQRSTUVWXYZ_'')"

definition digit_val :: "char \<Rightarrow> nat" where
  "digit_val c = of_char c - 48"

text \<open>The decimal value of a string of digits (\<open>parseInt\<close> on the group the regex captured).\<close>

definition parseInt :: "string \<Rightarrow> nat" where
  "parseInt ds = foldl (\<lambda>n c. 10 * n + digit_val c) 0 ds"

text \<open>
  \<^verbatim>\<open>SYSVAR_RE = /\%\(([0-9]+)\)/i\<close>, not anchored: the leftmost \<open>%(\<close>, one or more digits, \<open>)\<close>.
  \<open>match_SYSVAR_RE\<close> returns the captured digits of the first match.
\<close>

fun SYSVAR_RE_here :: "string \<Rightarrow> string option" where
  "SYSVAR_RE_here (c # d # rest) =
     (if c = CHR ''%'' \<and> d = CHR ''('' \<and> takeWhile is_digit rest \<noteq> [] \<and>
         take 1 (dropWhile is_digit rest) = '')''
      then Some (takeWhile is_digit rest) else None)"
| "SYSVAR_RE_here s = None"

fun match_SYSVAR_RE :: "string \<Rightarrow> string option" where
  "match_SYSVAR_RE [] = None"
| "match_SYSVAR_RE (c # cs) =
     (case SYSVAR_RE_here (c # cs) of Some ds \<Rightarrow> Some ds | None \<Rightarrow> match_SYSVAR_RE cs)"

text \<open>
  \<^verbatim>\<open>USERVAR_RE = /\&([a-zA-Z_]+[A-Za-z0-9_]*)/i\<close>, not anchored: it matches when some \<open>&\<close> is
  followed by a letter or an underscore. Only the fact of a match is used by the caller.
\<close>

fun match_USERVAR_RE :: "string \<Rightarrow> bool" where
  "match_USERVAR_RE (c # d # rest) =
     (if c = CHR ''&'' \<and> is_ident_start d then True else match_USERVAR_RE (d # rest))"
| "match_USERVAR_RE s = False"

text \<open>
  \<open>parseFloat\<close> on a string: leading white space is skipped, then the longest prefix that is a
  decimal literal (sign, \<open>Infinity\<close> or digits with an optional fraction and exponent) is read;
  with no such prefix the result is \<open>NaN\<close>. Only ASCII white space is recognised here, and the
  value of the literal is exact.
\<close>

definition is_space :: "char \<Rightarrow> bool" where
  "is_space c = (of_char c \<in> {9, 10, 11, 12, 13, 32 :: nat})"

text \<open>The exponent part \<open>e\<close>, optional sign, digits; 0 when there is none.\<close>

definition exponent_part :: "string \<Rightarrow> int" where
  "exponent_part s =
     (case s of
        e # t \<Rightarrow>
          (if e = CHR ''e'' \<or> e = CHR ''E'' then
             (case t of
                g # u \<Rightarrow>
                  (if g = CHR ''-'' then
                     (if takeWhile is_digit u \<noteq> [] then - int (parseInt (takeWhile is_digit u)) else 0)
                   else if g = CHR ''+'' then
                     (if takeWhile is_digit u \<noteq> [] then int (parseInt (takeWhile is_digit u)) else 0)
                   else int (parseInt (takeWhile is_digit t)))
              | [] \<Rightarrow> 0)
           else 0)
      | [] \<Rightarrow> 0)"

definition scale10 :: "real \<Rightarrow> int \<Rightarrow> real" where
  "scale10 m e = (if 0 \<le> e then m * 10 ^ nat e else m / 10 ^ nat (- e))"

definition parse_unsigned :: "string \<Rightarrow> jsnum" where
  "parse_unsigned s =
     (if take 8 s = ''Infinity'' then PInf
      else
        (let ip = takeWhile is_digit s;
             r1 = dropWhile is_digit s;
             fp = (if take 1 r1 = ''.'' then takeWhile is_digit (drop 1 r1) else []);
             r2 = (if take 1 r1 = ''.'' then dropWhile is_digit (drop 1 r1) else r1)
         in if ip = [] \<and> fp = [] then NaN
            else Fin (scale10 (real (parseInt ip) + real (parseInt fp) / 10 ^ length fp)
                              (exponent_part r2))))"

definition parseFloat :: "string \<Rightarrow> jsnum" where
  "parseFloat str =
     (case dropWhile is_space str of
        [] \<Rightarrow> NaN
      | c # cs \<Rightarrow>
          (if c = CHR ''-'' then js_neg (parse_unsigned cs)
           else if c = CHR ''+'' then parse_unsigned cs
           else parse_unsigned (c # cs)))"


section \<open>Programs\<close>

text \<open>
  An expression is a leaf (a number, or a string the parser left as it was: \<open>%(1)\<close>,
  \<open>&depth\<close>, an unquoted text) or a binary node \<open>{op, left, right}\<close>.
\<close>

datatype leaf = LNum jsnum | LStr string

datatype expr = Leaf leaf | BinOp string expr expr

text \<open>
  A statement, by its \<open>type\<close> field: \<open>cmd\<close> (\<open>cmd\<close>, \<open>args\<close>; an empty argument is \<open>undefined\<close>),
  \<open>return\<close>, \<open>end\<close>, \<open>goto\<close> and \<open>gosub\<close> (\<open>label\<close>), \<open>assign\<close> (\<open>var\<close>, \<open>expr\<close>), \<open>cond\<close>
  (\<open>cmp\<close>, \<open>stmt\<close>), \<open>label\<close> (\<open>value\<close>), \<open>comment\<close>, \<open>pause\<close> (\<open>expr\<close>, optional), an object
  with no \<open>type\<close>, and an object of any other type. A program is an array of statements; the
  engine allows for falsy entries (\<open>None\<close>).
\<close>

datatype stmt =
    Cmd string "expr option list"
  | Return
  | End
  | Goto string
  | Gosub string
  | Assign string expr
  | Cond expr stmt
  | Label string
  | Comment
  | Pause "expr option"
  | NoType
  | OtherType string

type_synonym program = "stmt option list"


section \<open>The runtime state\<close>

text \<open>
  The label index is a plain object, so besides the labels entered into it it has the
  properties every object inherits from \<open>Object.prototype\<close>. The operator \<open>in\<close> sees both.
\<close>

definition Object_prototype_keys :: "string list" where
  "Object_prototype_keys =
     [''constructor'', ''__defineGetter__'', ''__defineSetter__'', ''hasOwnProperty'',
      ''__lookupGetter__'', ''__lookupSetter__'', ''isPrototypeOf'', ''propertyIsEnumerable'',
      ''toString'', ''valueOf'', ''__proto__'', ''toLocaleString'']"

text \<open>\<open>key in index\<close>\<close>

definition has_key :: "(string \<rightharpoonup> nat) \<Rightarrow> string \<Rightarrow> bool" where
  "has_key idx k = (k \<in> dom idx \<or> k \<in> set Object_prototype_keys)"

text \<open>
  The text of an inherited property, as \<open>String\<close> prints it: the functions print as native
  code under their names (\<open>constructor\<close> is the function \<open>Object\<close>), and \<open>__proto__\<close> is the
  prototype object itself.
\<close>

definition object_text :: "string \<Rightarrow> string" where
  "object_text k =
     (if k = ''__proto__'' then ''[object Object]''
      else ''function '' @ (if k = ''constructor'' then ''Object'' else k) @
           ''() { [native code] }'')"

text \<open>
  The program counter starts as a number, but the engine also stores into it what it reads
  from the label index (a line number, or an inherited property) and what it pops from the
  stack (a one-element array, or \<open>undefined\<close> when the stack is empty), and \<open>+= 1\<close> on such a
  value gives a string or \<open>NaN\<close>. \<open>PArr n\<close> is the array \<open>[n]\<close> of a number, \<open>PArrStr t\<close> the array
  of a string, \<open>PObj k\<close> the inherited property \<open>k\<close>.
\<close>

datatype pcval =
  PNum nat | PArr nat | PStr string | PUndefined | PNaN | PObj string | PArrStr string

text \<open>The decimal digits of a natural number, as \<open>String(n)\<close> prints it.\<close>

fun decimal :: "nat \<Rightarrow> string" where
  "decimal n =
     (if n < 10 then [''0123456789'' ! n]
      else decimal (n div 10) @ [''0123456789'' ! (n mod 10)])"

text \<open>
  \<open>this.pc += 1\<close>: a number is incremented; an array \<open>[n]\<close> and a string are converted to
  strings and \<open>"1"\<close> is appended; \<open>undefined + 1\<close> is \<open>NaN\<close>.
\<close>

fun pc_plus_1 :: "pcval \<Rightarrow> pcval" where
  "pc_plus_1 (PNum n) = PNum (n + 1)"
| "pc_plus_1 (PArr n) = PStr (decimal n @ ''1'')"
| "pc_plus_1 (PStr s) = PStr (s @ ''1'')"
| "pc_plus_1 PUndefined = PNaN"
| "pc_plus_1 PNaN = PNaN"
| "pc_plus_1 (PObj k) = PStr (object_text k @ ''1'')"
| "pc_plus_1 (PArrStr t) = PStr (t @ ''1'')"

text \<open>The part of \<open>machine.status\<close> that the system variables read.\<close>

record status =
  posx :: jsval
  posy :: jsval
  posz :: jsval
  posa :: jsval
  posb :: jsval
  posc :: jsval

text \<open>The module-wide \<open>sbp_settings\<close> object.\<close>

record settings =
  movexy_speed :: jsval
  movez_speed :: jsval
  movea_speed :: jsval
  moveb_speed :: jsval
  movec_speed :: jsval
  jogxy_speed :: jsval
  jogz_speed :: jsval
  joga_speed :: jsval
  jogb_speed :: jsval
  jogc_speed :: jsval
  cutterDia :: jsval
  pocketOverlap :: jsval
  safeZpullUp :: jsval
  safeApullUp :: jsval
  plungeDir :: jsval

text \<open>
  A line of G-code is built by string concatenation. The model keeps the pieces: literal text,
  and values that \<open>+\<close> converts to text.
\<close>

datatype piece = Txt string | Val jsval

type_synonym gcode = "piece list"

record runtime =
  program :: program
  pc :: pcval
  start_of_the_chunk :: nat
  user_vars :: "string \<rightharpoonup> jsval"
  label_index :: "string \<rightharpoonup> nat"
  stack :: "pcval list"
  current_chunk :: "gcode list"
  running :: bool
  started :: bool
  sysvar_evaluated :: bool
  chunk_broken_for_eval :: bool
  cmd_posx :: jsval
  cmd_posy :: jsval
  cmd_posz :: jsval
  cmd_posa :: jsval
  cmd_posb :: jsval
  cmd_posc :: jsval
  machine_status :: status
  sbp_settings :: settings

text \<open>
  The state the constructor \<open>SBPRuntime()\<close> and \<open>init\<close> leave, for a machine with the status
  \<open>st\<close> and the settings \<open>cfg\<close>.
\<close>

definition SBPRuntime :: "status \<Rightarrow> settings \<Rightarrow> runtime" where
  "SBPRuntime st cfg =
     \<lparr>program = [], pc = PNum 0, start_of_the_chunk = 0, user_vars = Map.empty,
      label_index = Map.empty, stack = [], current_chunk = [], running = False,
      started = False, sysvar_evaluated = False, chunk_broken_for_eval = False,
      cmd_posx = JNum (Fin 0), cmd_posy = JNum (Fin 0), cmd_posz = JNum (Fin 0),
      cmd_posa = JNum (Fin 0), cmd_posb = JNum (Fin 0), cmd_posc = JNum (Fin 0),
      machine_status = st, sbp_settings = cfg\<rparr>"

datatype error =
    DuplicateLabel
  | UndefinedLabel string nat
  | ReturnWithNoGosub pcval
  | UnknownLabel string pcval
  | UnhandledOperation string
  | TypeError
  | HandlerNotEmbedded string


section \<open>Expression evaluation\<close>

text \<open>
  \<open>evaluateSystemVariable\<close>: \<open>undefined\<close> when the string holds no system variable, \<open>null\<close> for
  an unknown selector, the value read otherwise.
\<close>

definition evaluateSystemVariable :: "runtime \<Rightarrow> string \<Rightarrow> jsval" where
  "evaluateSystemVariable s v =
     (case match_SYSVAR_RE v of
        None \<Rightarrow> JUndefined
      | Some ds \<Rightarrow>
          (let n = parseInt ds in
           if n = 1 then posx (machine_status s)
           else if n = 2 then posy (machine_status s)
           else if n = 3 then posz (machine_status s)
           else if n = 4 then posa (machine_status s)
           else if n = 5 then posb (machine_status s)
           else if n = 71 then movexy_speed (sbp_settings s)
           else if n = 72 then movexy_speed (sbp_settings s)
           else if n = 73 then movez_speed (sbp_settings s)
           else if n = 74 then movea_speed (sbp_settings s)
           else if n = 75 then moveb_speed (sbp_settings s)
           else if n = 76 then movec_speed (sbp_settings s)
           else if n = 144 then posc (machine_status s)
           else JNull))"

text \<open>
  \<open>evaluateUserVariable\<close>: \<open>undefined\<close> when the string holds no user variable, the stored value
  when the whole string is a key of \<open>user_vars\<close>, \<open>null\<close> otherwise.
\<close>

definition evaluateUserVariable :: "runtime \<Rightarrow> string \<Rightarrow> jsval" where
  "evaluateUserVariable s v =
     (if \<not> match_USERVAR_RE v then JUndefined
      else (case user_vars s v of Some x \<Rightarrow> x | None \<Rightarrow> JNull))"

text \<open>
  \<open>_eval_value\<close>. The two branches commented \<open>ERROR\<close> in the source are empty: the function
  falls off its end there and returns \<open>undefined\<close>.
\<close>

definition eval_value :: "runtime \<Rightarrow> string \<Rightarrow> jsval \<times> runtime" where
  "eval_value s expr =
     (let sys_var = evaluateSystemVariable s expr in
      if sys_var = JUndefined then
        (let user_var = evaluateUserVariable s expr in
         if user_var = JUndefined then (JNum (parseFloat expr), s)
         else if user_var = JNull then (JUndefined, s)
         else (JNum (parseFloat_value user_var), s))
      else if sys_var = JNull then (JUndefined, s)
      else (JNum (parseFloat_value sys_var), s\<lparr>sysvar_evaluated := True\<rparr>))"

text \<open>
  The operators of \<open>_eval\<close>. The operands are never strings, so \<open>+\<close> is numeric addition.
\<close>

definition operators :: "(string \<times> (jsval \<Rightarrow> jsval \<Rightarrow> jsval)) list" where
  "operators =
     [(''+'', \<lambda>a b. JNum (js_add (to_number a) (to_number b))),
      (''-'', \<lambda>a b. JNum (js_sub (to_number a) (to_number b))),
      (''*'', \<lambda>a b. JNum (js_mul (to_number a) (to_number b))),
      (''/'', \<lambda>a b. JNum (js_div (to_number a) (to_number b))),
      (''>'', \<lambda>a b. JBool (js_lt (to_number b) (to_number a))),
      (''<'', \<lambda>a b. JBool (js_lt (to_number a) (to_number b))),
      (''>='', \<lambda>a b. JBool (js_le (to_number b) (to_number a))),
      (''<='', \<lambda>a b. JBool (js_le (to_number a) (to_number b))),
      (''=='', \<lambda>a b. JBool (js_loose_eq a b)),
      (''='', \<lambda>a b. JBool (js_loose_eq a b)),
      (''!='', \<lambda>a b. JBool (\<not> js_loose_eq a b))]"

text \<open>The \<open>switch\<close> on \<open>expr.op\<close>: the case of the operator, \<open>None\<close> for the \<open>default\<close>.\<close>

definition binop :: "string \<Rightarrow> (jsval \<Rightarrow> jsval \<Rightarrow> jsval) option" where
  "binop op = map_of operators op"

text \<open>
  \<open>_eval\<close> on an expression: a leaf goes through \<open>String\<close> and \<open>_eval_value\<close> (a number prints
  and reads back as itself, and its text matches neither regular expression); a node
  evaluates left, then right, then applies the operator; an operator outside the \<open>switch\<close>
  throws before either side is evaluated.
\<close>

fun eval :: "runtime \<Rightarrow> expr \<Rightarrow> error + (jsval \<times> runtime)" where
  "eval s (Leaf (LNum n)) = Inr (JNum n, s)"
| "eval s (Leaf (LStr v)) = Inr (eval_value s v)"
| "eval s (BinOp op l r) =
     (case binop op of
        None \<Rightarrow> Inl (UnhandledOperation op)
      | Some f \<Rightarrow>
          (case eval s l of
             Inl e \<Rightarrow> Inl e
           | Inr (a, s1) \<Rightarrow>
               (case eval s1 r of
                  Inl e \<Rightarrow> Inl e
                | Inr (b, s2) \<Rightarrow> Inr (f a b, s2))))"

text \<open>\<open>_eval\<close> on an argument that may be \<open>undefined\<close>.\<close>

fun eval_opt :: "runtime \<Rightarrow> expr option \<Rightarrow> error + (jsval \<times> runtime)" where
  "eval_opt s None = Inr (JUndefined, s)"
| "eval_opt s (Some e) = eval s e"


section \<open>Command handlers\<close>

text \<open>
  A handler is a method of the runtime named by a mnemonic. A handler declared with one
  parameter \<open>(args)\<close> runs at once on the evaluated arguments; a handler declared with two,
  \<open>(args, callback)\<close>, only starts a request to the driver: its effects and the callback come
  later, from the driver's reply. \<open>NotEmbedded\<close> stands for a one-parameter handler of the
  source whose body this theory does not translate.
\<close>

datatype handler = Sync "jsval list \<Rightarrow> runtime \<Rightarrow> runtime" | Breaking | NotEmbedded

type_synonym prototype = "string \<Rightarrow> handler option"

definition emit_gcode :: "gcode \<Rightarrow> runtime \<Rightarrow> runtime" where
  "emit_gcode g s = s\<lparr>current_chunk := current_chunk s @ [g]\<rparr>"

text \<open>\<open>60.0 * sbp_settings.movexy_speed\<close> and the like.\<close>

definition times60 :: "jsval \<Rightarrow> jsval" where
  "times60 v = JNum (js_mul (Fin 60) (to_number v))"

definition MX :: "jsval list \<Rightarrow> runtime \<Rightarrow> runtime" where
  "MX args s =
     (emit_gcode [Txt ''G1 X'', Val (arg_at args 0), Txt '' F'',
                  Val (times60 (movexy_speed (sbp_settings s)))] s)
     \<lparr>cmd_posx := arg_at args 0\<rparr>"

definition MY :: "jsval list \<Rightarrow> runtime \<Rightarrow> runtime" where
  "MY args s =
     (emit_gcode [Txt ''G1Y'', Val (arg_at args 0), Txt '' F'',
                  Val (times60 (movexy_speed (sbp_settings s)))] s)
     \<lparr>cmd_posy := arg_at args 0\<rparr>"

definition MZ :: "jsval list \<Rightarrow> runtime \<Rightarrow> runtime" where
  "MZ args s =
     (emit_gcode [Txt ''G1Z'', Val (arg_at args 0), Txt '' F'',
                  Val (times60 (movez_speed (sbp_settings s)))] s)
     \<lparr>cmd_posz := arg_at args 0\<rparr>"

definition MA :: "jsval list \<Rightarrow> runtime \<Rightarrow> runtime" where
  "MA args s =
     (emit_gcode [Txt ''G1A'', Val (arg_at args 0), Txt '' F'',
                  Val (times60 (movea_speed (sbp_settings s)))] s)
     \<lparr>cmd_posa := arg_at args 0\<rparr>"

definition MB :: "jsval list \<Rightarrow> runtime \<Rightarrow> runtime" where
  "MB args s =
     (emit_gcode [Txt ''G1B'', Val (arg_at args 0), Txt '' F'',
                  Val (times60 (moveb_speed (sbp_settings s)))] s)
     \<lparr>cmd_posb := arg_at args 0\<rparr>"

definition MC :: "jsval list \<Rightarrow> runtime \<Rightarrow> runtime" where
  "MC args s =
     (emit_gcode [Txt ''G1C'', Val (arg_at args 0), Txt '' F'',
                  Val (times60 (movec_speed (sbp_settings s)))] s)
     \<lparr>cmd_posc := arg_at args 0\<rparr>"

text \<open>
  The modal moves build \<open>outStr\<close> axis by axis. One step, for the axis letter \<open>l\<close>, the argument
  \<open>a\<close> and the update \<open>upd\<close> of the commanded position:
  \<^verbatim>\<open>if (args[0] !== undefined) { outStr = outStr + "X" + args[0]; this.cmd_posx = args[0]; }\<close>
  The pair is \<open>outStr\<close> and the runtime.
\<close>

definition axis_word ::
  "string \<Rightarrow> jsval \<Rightarrow> (jsval \<Rightarrow> runtime \<Rightarrow> runtime) \<Rightarrow> gcode \<times> runtime \<Rightarrow> gcode \<times> runtime" where
  "axis_word l a upd os =
     (if a \<noteq> JUndefined then (fst os @ [Txt l, Val a], upd a (snd os)) else os)"

definition set_cmd_posx :: "jsval \<Rightarrow> runtime \<Rightarrow> runtime" where
  "set_cmd_posx a s = s\<lparr>cmd_posx := a\<rparr>"

definition set_cmd_posy :: "jsval \<Rightarrow> runtime \<Rightarrow> runtime" where
  "set_cmd_posy a s = s\<lparr>cmd_posy := a\<rparr>"

definition set_cmd_posz :: "jsval \<Rightarrow> runtime \<Rightarrow> runtime" where
  "set_cmd_posz a s = s\<lparr>cmd_posz := a\<rparr>"

definition set_cmd_posa :: "jsval \<Rightarrow> runtime \<Rightarrow> runtime" where
  "set_cmd_posa a s = s\<lparr>cmd_posa := a\<rparr>"

definition set_cmd_posb :: "jsval \<Rightarrow> runtime \<Rightarrow> runtime" where
  "set_cmd_posb a s = s\<lparr>cmd_posb := a\<rparr>"

definition set_cmd_posc :: "jsval \<Rightarrow> runtime \<Rightarrow> runtime" where
  "set_cmd_posc a s = s\<lparr>cmd_posc := a\<rparr>"

text \<open>The end of a modal move: \<open>outStr\<close> gets its feed word and is emitted.\<close>

definition emit_with_feed :: "jsval \<Rightarrow> gcode \<times> runtime \<Rightarrow> runtime" where
  "emit_with_feed f os = emit_gcode (fst os @ [Txt ''F'', Val f]) (snd os)"

definition M2 :: "jsval list \<Rightarrow> runtime \<Rightarrow> runtime" where
  "M2 args s =
     emit_with_feed (times60 (movexy_speed (sbp_settings s)))
       (axis_word ''Y'' (arg_at args 1) set_cmd_posy
       (axis_word ''X'' (arg_at args 0) set_cmd_posx ([Txt ''G1''], s)))"

definition M3 :: "jsval list \<Rightarrow> runtime \<Rightarrow> runtime" where
  "M3 args s =
     emit_with_feed (times60 (movexy_speed (sbp_settings s)))
       (axis_word ''Z'' (arg_at args 2) set_cmd_posz
       (axis_word ''Y'' (arg_at args 1) set_cmd_posy
       (axis_word ''X'' (arg_at args 0) set_cmd_posx ([Txt ''G1''], s))))"

definition M4 :: "jsval list \<Rightarrow> runtime \<Rightarrow> runtime" where
  "M4 args s =
     emit_with_feed (times60 (movexy_speed (sbp_settings s)))
       (axis_word ''A'' (arg_at args 3) set_cmd_posa
       (axis_word ''Z'' (arg_at args 2) set_cmd_posz
       (axis_word ''Y'' (arg_at args 1) set_cmd_posy
       (axis_word ''X'' (arg_at args 0) set_cmd_posx ([Txt ''G1''], s)))))"

definition M5 :: "jsval list \<Rightarrow> runtime \<Rightarrow> runtime" where
  "M5 args s =
     emit_with_feed (times60 (movexy_speed (sbp_settings s)))
       (axis_word ''B'' (arg_at args 4) set_cmd_posb
       (axis_word ''A'' (arg_at args 3) set_cmd_posa
       (axis_word ''Z'' (arg_at args 2) set_cmd_posz
       (axis_word ''Y'' (arg_at args 1) set_cmd_posy
       (axis_word ''X'' (arg_at args 0) set_cmd_posx ([Txt ''G1''], s))))))"

text \<open>\<open>M6\<close> ends with \<open>outStr + "F" + sbp_settings.movexy_speed\<close>: the speed as it is.\<close>

definition M6 :: "jsval list \<Rightarrow> runtime \<Rightarrow> runtime" where
  "M6 args s =
     emit_with_feed (movexy_speed (sbp_settings s))
       (axis_word ''C'' (arg_at args 5) set_cmd_posc
       (axis_word ''B'' (arg_at args 4) set_cmd_posb
       (axis_word ''A'' (arg_at args 3) set_cmd_posa
       (axis_word ''Z'' (arg_at args 2) set_cmd_posz
       (axis_word ''Y'' (arg_at args 1) set_cmd_posy
       (axis_word ''X'' (arg_at args 0) set_cmd_posx ([Txt ''G1''], s)))))))"

text \<open>\<open>MH\<close>: \<open>"G1X0Y0" + " F" + sbp_settings.movexy_speed\<close>.\<close>

definition MH :: "jsval list \<Rightarrow> runtime \<Rightarrow> runtime" where
  "MH args s =
     (emit_gcode [Txt ''G1X0Y0'', Txt '' F'', Val (movexy_speed (sbp_settings s))] s)
     \<lparr>cmd_posx := JNum (Fin 0), cmd_posy := JNum (Fin 0)\<rparr>"

text \<open>
  One assignment of a settings handler:
  \<^verbatim>\<open>if (args[0] !== undefined) sbp_settings.movexy_speed = args[0];\<close>
\<close>

definition set_if_defined :: "jsval \<Rightarrow> (jsval \<Rightarrow> settings \<Rightarrow> settings) \<Rightarrow> settings \<Rightarrow> settings" where
  "set_if_defined a upd cfg = (if a \<noteq> JUndefined then upd a cfg else cfg)"

definition MS :: "jsval list \<Rightarrow> runtime \<Rightarrow> runtime" where
  "MS args s =
     s\<lparr>sbp_settings :=
         set_if_defined (arg_at args 4) (\<lambda>a cfg. cfg\<lparr>movec_speed := a\<rparr>)
        (set_if_defined (arg_at args 3) (\<lambda>a cfg. cfg\<lparr>moveb_speed := a\<rparr>)
        (set_if_defined (arg_at args 2) (\<lambda>a cfg. cfg\<lparr>movea_speed := a\<rparr>)
        (set_if_defined (arg_at args 1) (\<lambda>a cfg. cfg\<lparr>movez_speed := a\<rparr>)
        (set_if_defined (arg_at args 0) (\<lambda>a cfg. cfg\<lparr>movexy_speed := a\<rparr>)
           (sbp_settings s)))))\<rparr>"

definition VC :: "jsval list \<Rightarrow> runtime \<Rightarrow> runtime" where
  "VC args s =
     s\<lparr>sbp_settings :=
         set_if_defined (arg_at args 6) (\<lambda>a cfg. cfg\<lparr>safeApullUp := a\<rparr>)
        (set_if_defined (arg_at args 5) (\<lambda>a cfg. cfg\<lparr>pocketOverlap := a\<rparr>)
        (set_if_defined (arg_at args 4) (\<lambda>a cfg. cfg\<lparr>plungeDir := a\<rparr>)
        (set_if_defined (arg_at args 3) (\<lambda>a cfg. cfg\<lparr>safeZpullUp := a\<rparr>)
        (set_if_defined (arg_at args 0) (\<lambda>a cfg. cfg\<lparr>cutterDia := a\<rparr>)
           (sbp_settings s)))))\<rparr>"

text \<open>
  \<open>CG\<close> opens by assigning three settings, whatever they held:
  \<^verbatim>\<open>sbp_settings.cutterDia = 0.25; sbp_settings.pocketOverlap = 10; sbp_settings.safeZpullUp = 0.25;\<close>
\<close>

definition CG_settings :: "runtime \<Rightarrow> runtime" where
  "CG_settings s =
     s\<lparr>sbp_settings := (sbp_settings s)\<lparr>cutterDia := JNum (Fin (1 / 4)),
                                          pocketOverlap := JNum (Fin 10),
                                          safeZpullUp := JNum (Fin (1 / 4))\<rparr>\<rparr>"

text \<open>
  The step-over of \<open>CG\<close>, computed when the option is 2 (pocket):
  \<^verbatim>\<open>var optCG = args[11] !== undefined ? args[11] : 0;\<close>
  \<^verbatim>\<open>if ( optCG == 2 ) { ...\<close>
  \<^verbatim>\<open>  stepOver = sbp_settings.cutterDia * ((100 - sbp_settings.pocketOverlap) / 100);\<close>
  \<open>None\<close> when the option is not 2 and \<open>stepOver\<close> is not assigned. The G-code that \<open>CG\<close> goes on
  to emit from it is not part of this model.
\<close>

definition CG_stepOver :: "jsval list \<Rightarrow> runtime \<Rightarrow> jsnum option" where
  "CG_stepOver args s =
     (let s1 = CG_settings s;
          optCG = (if arg_at args 11 \<noteq> JUndefined then arg_at args 11 else JNum (Fin 0))
      in if js_loose_eq optCG (JNum (Fin 2))
         then Some (js_mul (to_number (cutterDia (sbp_settings s1)))
                      (js_div (js_sub (Fin 100) (to_number (pocketOverlap (sbp_settings s1))))
                              (Fin 100)))
         else None)"

text \<open>The handlers with an empty body (\<open>FP\<close>, \<open>MI\<close>, \<open>SM\<close>, \<open>VD\<close>, ...).\<close>

definition no_op :: "jsval list \<Rightarrow> runtime \<Rightarrow> runtime" where
  "no_op args s = s"

text \<open>The jog family: as the moves, with \<open>G0\<close> and no feed word.\<close>

definition JX :: "jsval list \<Rightarrow> runtime \<Rightarrow> runtime" where
  "JX args s = (emit_gcode [Txt ''G0X'', Val (arg_at args 0)] s)\<lparr>cmd_posx := arg_at args 0\<rparr>"

definition JY :: "jsval list \<Rightarrow> runtime \<Rightarrow> runtime" where
  "JY args s = (emit_gcode [Txt ''G0Y'', Val (arg_at args 0)] s)\<lparr>cmd_posy := arg_at args 0\<rparr>"

definition JZ :: "jsval list \<Rightarrow> runtime \<Rightarrow> runtime" where
  "JZ args s = (emit_gcode [Txt ''G0Z'', Val (arg_at args 0)] s)\<lparr>cmd_posz := arg_at args 0\<rparr>"

definition JA :: "jsval list \<Rightarrow> runtime \<Rightarrow> runtime" where
  "JA args s = (emit_gcode [Txt ''G0A'', Val (arg_at args 0)] s)\<lparr>cmd_posa := arg_at args 0\<rparr>"

definition JB :: "jsval list \<Rightarrow> runtime \<Rightarrow> runtime" where
  "JB args s = (emit_gcode [Txt ''G0B'', Val (arg_at args 0)] s)\<lparr>cmd_posb := arg_at args 0\<rparr>"

definition JC :: "jsval list \<Rightarrow> runtime \<Rightarrow> runtime" where
  "JC args s = (emit_gcode [Txt ''G0C'', Val (arg_at args 0)] s)\<lparr>cmd_posc := arg_at args 0\<rparr>"

text \<open>The end of a modal jog: \<open>this.emit_gcode(outStr)\<close>.\<close>

definition emit_line :: "gcode \<times> runtime \<Rightarrow> runtime" where
  "emit_line os = emit_gcode (fst os) (snd os)"

definition J2 :: "jsval list \<Rightarrow> runtime \<Rightarrow> runtime" where
  "J2 args s =
     emit_line
       (axis_word ''Y'' (arg_at args 1) set_cmd_posy
       (axis_word ''X'' (arg_at args 0) set_cmd_posx ([Txt ''G0''], s)))"

definition J3 :: "jsval list \<Rightarrow> runtime \<Rightarrow> runtime" where
  "J3 args s =
     emit_line
       (axis_word ''Z'' (arg_at args 2) set_cmd_posz
       (axis_word ''Y'' (arg_at args 1) set_cmd_posy
       (axis_word ''X'' (arg_at args 0) set_cmd_posx ([Txt ''G0''], s))))"

definition J4 :: "jsval list \<Rightarrow> runtime \<Rightarrow> runtime" where
  "J4 args s =
     emit_line
       (axis_word ''A'' (arg_at args 3) set_cmd_posa
       (axis_word ''Z'' (arg_at args 2) set_cmd_posz
       (axis_word ''Y'' (arg_at args 1) set_cmd_posy
       (axis_word ''X'' (arg_at args 0) set_cmd_posx ([Txt ''G0''], s)))))"

definition J5 :: "jsval list \<Rightarrow> runtime \<Rightarrow> runtime" where
  "J5 args s =
     emit_line
       (axis_word ''B'' (arg_at args 4) set_cmd_posb
       (axis_word ''A'' (arg_at args 3) set_cmd_posa
       (axis_word ''Z'' (arg_at args 2) set_cmd_posz
       (axis_word ''Y'' (arg_at args 1) set_cmd_posy
       (axis_word ''X'' (arg_at args 0) set_cmd_posx ([Txt ''G0''], s))))))"

definition J6 :: "jsval list \<Rightarrow> runtime \<Rightarrow> runtime" where
  "J6 args s =
     emit_line
       (axis_word ''C'' (arg_at args 5) set_cmd_posc
       (axis_word ''B'' (arg_at args 4) set_cmd_posb
       (axis_word ''A'' (arg_at args 3) set_cmd_posa
       (axis_word ''Z'' (arg_at args 2) set_cmd_posz
       (axis_word ''Y'' (arg_at args 1) set_cmd_posy
       (axis_word ''X'' (arg_at args 0) set_cmd_posx ([Txt ''G0''], s)))))))"

definition JH :: "jsval list \<Rightarrow> runtime \<Rightarrow> runtime" where
  "JH args s = emit_gcode [Txt ''G0X0Y0''] (s\<lparr>cmd_posx := JNum (Fin 0), cmd_posy := JNum (Fin 0)\<rparr>)"

text \<open>The handlers that emit fixed lines, and the probe.\<close>

definition ZT :: "jsval list \<Rightarrow> runtime \<Rightarrow> runtime" where
  "ZT args s = emit_gcode [Txt ''G54''] s"

definition SA :: "jsval list \<Rightarrow> runtime \<Rightarrow> runtime" where
  "SA args s = emit_gcode [Txt ''G90''] s"

definition SR :: "jsval list \<Rightarrow> runtime \<Rightarrow> runtime" where
  "SR args s = emit_gcode [Txt ''G91''] s"

definition ST :: "jsval list \<Rightarrow> runtime \<Rightarrow> runtime" where
  "ST args s = emit_gcode [Txt ''G54''] s"

definition C6 :: "jsval list \<Rightarrow> runtime \<Rightarrow> runtime" where
  "C6 args s = emit_gcode [Txt ''M8''] (emit_gcode [Txt ''M4''] s)"

definition C7 :: "jsval list \<Rightarrow> runtime \<Rightarrow> runtime" where
  "C7 args s = emit_gcode [Txt ''M9''] (emit_gcode [Txt ''M5''] s)"

definition EP :: "jsval list \<Rightarrow> runtime \<Rightarrow> runtime" where
  "EP args s = emit_gcode [Txt ''G38.2 Z'', Val (arg_at args 0)] s"

text \<open>
  The prototype: every handler of the source under its mnemonic. (A mnemonic has two
  characters, so no other method of the runtime is found under one.) The handlers declared
  with a callback are \<open>ZX\<close>, \<open>ZY\<close>, \<open>ZZ\<close>, \<open>ZA\<close>, \<open>ZB\<close>, \<open>ZC\<close>, \<open>Z2\<close>, \<open>VA\<close> and \<open>VU\<close>. Not
  translated are \<open>CG\<close> beyond its step-over and \<open>CR\<close> (toolpath geometry), \<open>JS\<close> and \<open>VS\<close>
  (they call \<open>this.command\<close>, which the sources do not define) and \<open>Z3\<close> to \<open>Z6\<close> (they read the
  positions that \<open>_update\<close> copies from the driver). The engine below takes the prototype as a
  parameter.
\<close>

definition SBPRuntime_prototype :: prototype where
  "SBPRuntime_prototype =
     map_of
       [(''FP'', Sync no_op), (''FE'', Sync no_op), (''FN'', Sync no_op), (''FG'', Sync no_op),
        (''FC'', Sync no_op), (''FS'', Sync no_op),
        (''MX'', Sync MX), (''MY'', Sync MY), (''MZ'', Sync MZ), (''MA'', Sync MA),
        (''MB'', Sync MB), (''MC'', Sync MC),
        (''M2'', Sync M2), (''M3'', Sync M3), (''M4'', Sync M4), (''M5'', Sync M5),
        (''M6'', Sync M6), (''MH'', Sync MH), (''MS'', Sync MS),
        (''MI'', Sync no_op), (''MO'', Sync no_op),
        (''JX'', Sync JX), (''JY'', Sync JY), (''JZ'', Sync JZ), (''JA'', Sync JA),
        (''JB'', Sync JB), (''JC'', Sync JC),
        (''J2'', Sync J2), (''J3'', Sync J3), (''J4'', Sync J4), (''J5'', Sync J5),
        (''J6'', Sync J6), (''JH'', Sync JH), (''JS'', NotEmbedded),
        (''CG'', NotEmbedded), (''CR'', NotEmbedded),
        (''ZX'', Breaking), (''ZY'', Breaking), (''ZZ'', Breaking), (''ZA'', Breaking),
        (''ZB'', Breaking), (''ZC'', Breaking), (''Z2'', Breaking),
        (''Z3'', NotEmbedded), (''Z4'', NotEmbedded), (''Z5'', NotEmbedded),
        (''Z6'', NotEmbedded), (''ZT'', Sync ZT),
        (''SA'', Sync SA), (''SR'', Sync SR), (''SM'', Sync no_op), (''SP'', Sync no_op),
        (''ST'', Sync ST), (''C6'', Sync C6), (''C7'', Sync C7),
        (''VA'', Breaking), (''VC'', Sync VC), (''VD'', Sync no_op), (''VL'', Sync no_op),
        (''VN'', Sync no_op), (''VP'', Sync no_op), (''VR'', Sync no_op),
        (''VS'', NotEmbedded), (''VU'', Breaking), (''EP'', Sync EP)]"


section \<open>The stack-break classifier\<close>

text \<open>
  \<open>_breaksStack\<close>: a command breaks the stack when its handler takes a callback
  (\<open>f.length > 1\<close>); every other statement does not. The calls to \<open>_exprBreaksStack\<close> are
  commented out in the source. Reading \<open>cmd.type\<close> of a falsy entry throws.
\<close>

fun breaksStack :: "prototype \<Rightarrow> stmt option \<Rightarrow> error + bool" where
  "breaksStack this None = Inl TypeError"
| "breaksStack this (Some (Cmd name args)) =
     (case this name of Some Breaking \<Rightarrow> Inr True | _ \<Rightarrow> Inr False)"
| "breaksStack this (Some (Pause e)) = Inr False"
| "breaksStack this (Some (Cond cmp st)) = Inr False"
| "breaksStack this (Some (Assign v e)) = Inr False"
| "breaksStack this (Some st) = Inr False"

text \<open>
  \<open>_exprBreaksStack\<close>: a leaf breaks the stack when its first character is \<open>%\<close> (a number has
  no first character); a node when one of its sides does.
\<close>

fun exprBreaksStack :: "expr \<Rightarrow> bool" where
  "exprBreaksStack (Leaf (LNum n)) = False"
| "exprBreaksStack (Leaf (LStr v)) = (take 1 v = ''%'')"
| "exprBreaksStack (BinOp op l r) = (exprBreaksStack l \<or> exprBreaksStack r)"


section \<open>Program analysis\<close>

text \<open>
  \<open>_analyzeLabels\<close>, from line \<open>i\<close> on: every \<open>label\<close> statement is entered into the index
  under its name; a name that \<open>in\<close> already finds there throws, which includes the names of
  the inherited properties.
\<close>

fun analyzeLabels_from :: "nat \<Rightarrow> program \<Rightarrow> (string \<rightharpoonup> nat) \<Rightarrow> error + (string \<rightharpoonup> nat)" where
  "analyzeLabels_from i [] idx = Inr idx"
| "analyzeLabels_from i (Some (Label name) # rest) idx =
     (if has_key idx name then Inl DuplicateLabel
      else analyzeLabels_from (i + 1) rest (idx(name \<mapsto> i)))"
| "analyzeLabels_from i (line # rest) idx = analyzeLabels_from (i + 1) rest idx"

definition analyzeLabels :: "program \<Rightarrow> error + (string \<rightharpoonup> nat)" where
  "analyzeLabels prog = analyzeLabels_from 0 prog Map.empty"

text \<open>
  The \<open>label\<close> field of a statement: only \<open>goto\<close> and \<open>gosub\<close> have one. Used as a property
  key or in a message, \<open>undefined\<close> becomes the text \<open>undefined\<close>.
\<close>

fun label_field :: "stmt \<Rightarrow> string option" where
  "label_field (Goto l) = Some l"
| "label_field (Gosub l) = Some l"
| "label_field st = None"

fun as_text :: "string option \<Rightarrow> string" where
  "as_text None = ''undefined''"
| "as_text (Some l) = l"

text \<open>
  \<open>_analyzeGOTOs\<close>, from line \<open>i\<close> on. For a \<open>cond\<close> the \<open>switch\<close> replaces the line by its
  \<open>stmt\<close> and falls through to the check of \<open>goto\<close> and \<open>gosub\<close>, whatever that statement is.
  The message carries the line number \<open>i + 1\<close>.
\<close>

definition check_label :: "nat \<Rightarrow> stmt \<Rightarrow> (string \<rightharpoonup> nat) \<Rightarrow> error option" where
  "check_label i line idx =
     (if has_key idx (as_text (label_field line)) then None
      else Some (UndefinedLabel (as_text (label_field line)) (i + 1)))"

fun analyzeGOTOs_from :: "nat \<Rightarrow> program \<Rightarrow> (string \<rightharpoonup> nat) \<Rightarrow> error option" where
  "analyzeGOTOs_from i [] idx = None"
| "analyzeGOTOs_from i (Some (Cond cmp st) # rest) idx =
     (case check_label i st idx of Some e \<Rightarrow> Some e | None \<Rightarrow> analyzeGOTOs_from (i + 1) rest idx)"
| "analyzeGOTOs_from i (Some (Goto l) # rest) idx =
     (case check_label i (Goto l) idx of Some e \<Rightarrow> Some e
      | None \<Rightarrow> analyzeGOTOs_from (i + 1) rest idx)"
| "analyzeGOTOs_from i (Some (Gosub l) # rest) idx =
     (case check_label i (Gosub l) idx of Some e \<Rightarrow> Some e
      | None \<Rightarrow> analyzeGOTOs_from (i + 1) rest idx)"
| "analyzeGOTOs_from i (line # rest) idx = analyzeGOTOs_from (i + 1) rest idx"

definition analyzeGOTOs :: "program \<Rightarrow> (string \<rightharpoonup> nat) \<Rightarrow> error option" where
  "analyzeGOTOs prog idx = analyzeGOTOs_from 0 prog idx"

text \<open>
  The analysis of \<open>runString\<close>: the label pass, then the reference pass; an error of either
  keeps the program from running.
\<close>

definition analyze :: "program \<Rightarrow> error + (string \<rightharpoonup> nat)" where
  "analyze prog =
     (case analyzeLabels prog of
        Inl e \<Rightarrow> Inl e
      | Inr idx \<Rightarrow> (case analyzeGOTOs prog idx of Some e \<Rightarrow> Inl e | None \<Rightarrow> Inr idx))"


section \<open>The execution engine\<close>

text \<open>
  The table \<open>sb3_commands\<close> (a module that is not part of these sources) gives, for a command,
  its parameters with their defaults. It is a parameter of the model: for a command it knows,
  the list of the defaults, \<open>None\<close> for a parameter without one.
\<close>

type_synonym commands = "string \<Rightarrow> leaf option list option"

text \<open>\<open>prm_param.default || undefined\<close>: a falsy default (0, \<open>NaN\<close>, the empty string) is dropped.\<close>

fun default_or_undefined :: "leaf option \<Rightarrow> expr option" where
  "default_or_undefined None = None"
| "default_or_undefined (Some (LNum n)) = (if num_truthy n then Some (Leaf (LNum n)) else None)"
| "default_or_undefined (Some (LStr v)) = (if v \<noteq> [] then Some (Leaf (LStr v)) else None)"

text \<open>\<open>(args[i] !== undefined) && (args[i] !== "")\<close>\<close>

fun user_given :: "expr option \<Rightarrow> bool" where
  "user_given None = False"
| "user_given (Some (Leaf (LStr v))) = (v \<noteq> [])"
| "user_given (Some e) = True"

text \<open>The scrubbed argument list: one entry per declared parameter.\<close>

fun scrub :: "leaf option list \<Rightarrow> expr option list \<Rightarrow> expr option list" where
  "scrub [] args = []"
| "scrub (p # params) [] = default_or_undefined p # scrub params []"
| "scrub (p # params) (a # args) =
     (if user_given a then a else default_or_undefined p) # scrub params args"

fun eval_all :: "runtime \<Rightarrow> expr option list \<Rightarrow> error + (jsval list \<times> runtime)" where
  "eval_all s [] = Inr ([], s)"
| "eval_all s (a # as) =
     (case eval_opt s a of
        Inl e \<Rightarrow> Inl e
      | Inr (v, s1) \<Rightarrow>
          (case eval_all s1 as of
             Inl e \<Rightarrow> Inl e
           | Inr (vs, s2) \<Rightarrow> Inr (v # vs, s2)))"

definition evaluateArguments ::
  "commands \<Rightarrow> string \<Rightarrow> expr option list \<Rightarrow> runtime \<Rightarrow> error + (jsval list \<times> runtime)" where
  "evaluateArguments sb3_commands command args s =
     (case sb3_commands command of
        None \<Rightarrow> eval_all s []
      | Some params \<Rightarrow> eval_all s (scrub params args))"

text \<open>
  \<open>_executeCommand\<close> returns \<open>true\<close> for a handler with a callback: the handler has been
  started, and the program counter moves on only when the driver calls back. A handler
  without one runs, then the program counter moves on. An unknown mnemonic is logged and
  skipped. For a handler that is not translated the model stops with \<open>HandlerNotEmbedded\<close>:
  that result says where the model ends, not what the source does.
\<close>

definition executeCommand ::
  "prototype \<Rightarrow> commands \<Rightarrow> string \<Rightarrow> expr option list \<Rightarrow> runtime \<Rightarrow> error + (bool \<times> runtime)" where
  "executeCommand this sb3_commands name args s =
     (case this name of
        None \<Rightarrow> Inr (False, s\<lparr>pc := pc_plus_1 (pc s)\<rparr>)
      | Some h \<Rightarrow>
          (case evaluateArguments sb3_commands name args s of
             Inl e \<Rightarrow> Inl e
           | Inr (vals, s1) \<Rightarrow>
               (case h of
                  Breaking \<Rightarrow> Inr (True, s1)
                | Sync f \<Rightarrow> Inr (False, (f vals s1)\<lparr>pc := pc_plus_1 (pc (f vals s1))\<rparr>)
                | NotEmbedded \<Rightarrow> Inl (HandlerNotEmbedded name))))"

text \<open>The test \<open>if(this.stack)\<close>: an array is an object, and every object is truthy.\<close>

definition array_truthy :: "'a list \<Rightarrow> bool" where
  "array_truthy xs = True"

text \<open>\<open>this.stack.pop()\<close>: the last element and the rest, \<open>undefined\<close> on an empty array.\<close>

definition pop :: "pcval list \<Rightarrow> pcval \<times> pcval list" where
  "pop xs = (if xs = [] then (PUndefined, []) else (last xs, butlast xs))"

text \<open>The test \<open>if(command.expr)\<close> of \<open>pause\<close>: a leaf 0 or an empty string is falsy.\<close>

fun expr_truthy :: "expr option \<Rightarrow> bool" where
  "expr_truthy None = False"
| "expr_truthy (Some (Leaf (LNum n))) = num_truthy n"
| "expr_truthy (Some (Leaf (LStr v))) = (v \<noteq> [])"
| "expr_truthy (Some e) = True"

text \<open>
  \<open>_execute\<close>. The result is the returned value (\<open>None\<close> for the bare \<open>return\<close> of the first
  branch) and the runtime. In \<open>goto\<close> and \<open>gosub\<close> the test \<open>command.label in this.label_index\<close>
  holds for a label of the index, whose line becomes the program counter, and for the name
  of an inherited property, which then becomes the program counter itself; \<open>gosub\<close> pushes
  \<open>[this.pc + 1]\<close> after the jump.
\<close>

fun execute ::
  "prototype \<Rightarrow> commands \<Rightarrow> stmt option \<Rightarrow> runtime \<Rightarrow> error + (bool option \<times> runtime)" where
  "execute this cmds None s = Inr (None, s\<lparr>pc := pc_plus_1 (pc s)\<rparr>)"
| "execute this cmds (Some (Cmd name args)) s =
     (case executeCommand this cmds name args s of
        Inl e \<Rightarrow> Inl e
      | Inr (b, s1) \<Rightarrow> Inr (Some b, s1))"
| "execute this cmds (Some Return) s =
     (if array_truthy (stack s)
      then Inr (Some False, s\<lparr>pc := fst (pop (stack s)), stack := snd (pop (stack s))\<rparr>)
      else Inl (ReturnWithNoGosub (pc s)))"
| "execute this cmds (Some End) s = Inr (Some False, s\<lparr>pc := PNum (length (program s))\<rparr>)"
| "execute this cmds (Some (Goto l)) s =
     (case label_index s l of
        Some i \<Rightarrow> Inr (Some False, s\<lparr>pc := PNum i\<rparr>)
      | None \<Rightarrow>
          (if l \<in> set Object_prototype_keys then Inr (Some False, s\<lparr>pc := PObj l\<rparr>)
           else Inl (UnknownLabel l (pc s))))"
| "execute this cmds (Some (Gosub l)) s =
     (case label_index s l of
        Some i \<Rightarrow> Inr (Some False, s\<lparr>pc := PNum i, stack := stack s @ [PArr (i + 1)]\<rparr>)
      | None \<Rightarrow>
          (if l \<in> set Object_prototype_keys
           then Inr (Some False,
                     s\<lparr>pc := PObj l, stack := stack s @ [PArrStr (object_text l @ ''1'')]\<rparr>)
           else Inl (UnknownLabel l (pc s))))"
| "execute this cmds (Some (Assign v e)) s =
     (case eval s e of
        Inl err \<Rightarrow> Inl err
      | Inr (x, s1) \<Rightarrow>
          Inr (Some False, s1\<lparr>user_vars := (user_vars s1)(v \<mapsto> x), pc := pc_plus_1 (pc s1)\<rparr>))"
| "execute this cmds (Some (Cond cmp st)) s =
     (case eval s cmp of
        Inl err \<Rightarrow> Inl err
      | Inr (c, s1) \<Rightarrow>
          (if truthy c then execute this cmds (Some st) s1
           else Inr (Some False, s1\<lparr>pc := pc_plus_1 (pc s1)\<rparr>)))"
| "execute this cmds (Some (Label name)) s = Inr (Some False, s\<lparr>pc := pc_plus_1 (pc s)\<rparr>)"
| "execute this cmds (Some Comment) s = Inr (Some False, s\<lparr>pc := pc_plus_1 (pc s)\<rparr>)"
| "execute this cmds (Some NoType) s = Inr (Some False, s\<lparr>pc := pc_plus_1 (pc s)\<rparr>)"
| "execute this cmds (Some (Pause e)) s =
     (if expr_truthy e then
        (case eval_opt (s\<lparr>pc := pc_plus_1 (pc s)\<rparr>) e of
           Inl err \<Rightarrow> Inl err
         | Inr (x, s1) \<Rightarrow> Inr (Some False, emit_gcode [Txt ''G4 P'', Val x] s1))
      else Inr (Some False, s\<lparr>pc := pc_plus_1 (pc s)\<rparr>))"
| "execute this cmds (Some (OtherType t)) s = Inr (Some False, s\<lparr>pc := pc_plus_1 (pc s)\<rparr>)"


section \<open>Predicates used in the statements\<close>

text \<open>
  The operators that compare, the expressions whose operators all have a case in the
  \<open>switch\<close> of \<open>eval\<close>, and the two kinds of reference that \<open>eval_value\<close> marks as errors:
  a system variable with an unknown selector, and a user variable that is not defined.
\<close>

definition is_comparison :: "string \<Rightarrow> bool" where
  "is_comparison op = (op \<in> set [''>'', ''<'', ''>='', ''<='', ''=='', ''='', ''!=''])"

fun ops_supported :: "expr \<Rightarrow> bool" where
  "ops_supported (Leaf l) = True"
| "ops_supported (BinOp op l r) = (binop op \<noteq> None \<and> ops_supported l \<and> ops_supported r)"

definition unknown_sysvar :: "runtime \<Rightarrow> string \<Rightarrow> bool" where
  "unknown_sysvar s v = (evaluateSystemVariable s v = JNull)"

definition undefined_uservar :: "runtime \<Rightarrow> string \<Rightarrow> bool" where
  "undefined_uservar s v =
     (evaluateSystemVariable s v = JUndefined \<and> evaluateUserVariable s v = JNull)"

fun refs_resolve :: "runtime \<Rightarrow> expr \<Rightarrow> bool" where
  "refs_resolve s (Leaf (LNum n)) = True"
| "refs_resolve s (Leaf (LStr v)) = (\<not> unknown_sysvar s v \<and> \<not> undefined_uservar s v)"
| "refs_resolve s (BinOp op l r) = (refs_resolve s l \<and> refs_resolve s r)"

fun is_number :: "jsval \<Rightarrow> bool" where
  "is_number (JNum n) = True"
| "is_number v = False"

fun is_boolean :: "jsval \<Rightarrow> bool" where
  "is_boolean (JBool b) = True"
| "is_boolean v = False"

fun root_is_comparison :: "expr \<Rightarrow> bool" where
  "root_is_comparison (Leaf l) = False"
| "root_is_comparison (BinOp op l r) = is_comparison op"

text \<open>
  The blank statements: a falsy entry, and the \<open>comment\<close> object that the parser returns for
  an empty line.
\<close>

fun blank_statement :: "stmt option \<Rightarrow> bool" where
  "blank_statement None = True"
| "blank_statement (Some Comment) = True"
| "blank_statement (Some st) = False"


section \<open>Concrete inputs\<close>

text \<open>
  A machine at X = 7.5 with a move speed of 5 in XY, a command table that declares \<open>MX\<close>
  with one parameter and no default, and a runtime in the middle of a run (a return address
  on the stack, a user variable, a pending line, commanded positions away from zero). They
  are the inputs of the evaluated examples.
\<close>

definition status0 :: status where
  "status0 = \<lparr>posx = JNum (Fin (15 / 2)), posy = JNum (Fin 0), posz = JNum (Fin 0),
              posa = JNum (Fin 0), posb = JNum (Fin 0), posc = JNum (Fin 0)\<rparr>"

definition settings0 :: settings where
  "settings0 = \<lparr>movexy_speed = JNum (Fin 5), movez_speed = JNum (Fin 3),
                movea_speed = JNum (Fin 1), moveb_speed = JNum (Fin 1),
                movec_speed = JNum (Fin 1), jogxy_speed = JNum (Fin 10),
                jogz_speed = JNum (Fin 10), joga_speed = JNum (Fin 10),
                jogb_speed = JNum (Fin 10), jogc_speed = JNum (Fin 10),
                cutterDia = JNum (Fin (1 / 8)), pocketOverlap = JNum (Fin 50),
                safeZpullUp = JNum (Fin 1), safeApullUp = JNum (Fin 1),
                plungeDir = JNum (Fin 1)\<rparr>"


definition sb3_commands0 :: commands where
  "sb3_commands0 c = (if c = ''MX'' then Some [None] else None)"

definition runtime1 :: runtime where
  "runtime1 =
     (SBPRuntime status0 settings0)
       \<lparr>program := [Some (Gosub ''sub''), Some Comment, None, Some End, Some (Label ''sub''),
                    Some (Cmd ''MX'' [Some (Leaf (LNum (Fin 5)))]), Some Return],
        pc := PNum 1,
        user_vars := [''&depth'' \<mapsto> JNum (Fin 2)],
        label_index := [''sub'' \<mapsto> 4],
        stack := [PArr 5],
        current_chunk := [[Txt ''G1 X'', Val (JNum (Fin 5)), Txt '' F'', Val (JNum (Fin 300))]],
        running := True, started := True,
        cmd_posx := JNum (Fin 5), cmd_posy := JNum (Fin 2), cmd_posz := JNum (Fin (- 1)),
        cmd_posa := JNum (Fin 90), cmd_posb := JNum (Fin 45), cmd_posc := JNum (Fin 30)\<rparr>"


section \<open>Properties of the transformation library\<close>








text \<open>
  C9. A point whose X coordinate is 0 keeps X = 0 under \<open>scale\<close>, whatever the scale factor and
  the scale origin: the guard \<open>PtNew.X\<close> is falsy on 0, so the formula
  \<open>sx * x + cx * (1 - sx)\<close> is never applied to it. The same holds for a Y coordinate of 0.
\<close>

theorem scale_keeps_zero_coordinate:
  "(X P = Some (Fin 0) \<longrightarrow> X (scale P sx sy cx cy) = Some (Fin 0)) \<and>
   (Y P = Some (Fin 0) \<longrightarrow> Y (scale P sx sy cx cy) = Some (Fin 0))"
  by (simp add: scale_def scale_coord_def)

theorem scale_keeps_zero_coordinate_witness:
  "X \<lparr>X = Some (Fin 0), Y = Some (Fin 0), Z = None\<rparr> = Some (Fin 0) \<and>
   Y \<lparr>X = Some (Fin 0), Y = Some (Fin 0), Z = None\<rparr> = Some (Fin 0) \<and>
   X (scale \<lparr>X = Some (Fin 0), Y = Some (Fin 0), Z = None\<rparr> (Fin 2) (Fin 2) (Fin 3) (Fin 3))
     = Some (Fin 0) \<and>
   Y (scale \<lparr>X = Some (Fin 0), Y = Some (Fin 0), Z = None\<rparr> (Fin 2) (Fin 2) (Fin 3) (Fin 3))
     = Some (Fin 0) \<and>
   js_add (js_mul (Fin 2) (Fin 0)) (js_mul (Fin 3) (js_sub (Fin 1) (Fin 2))) = Fin (- 3)"
  using scale_keeps_zero_coordinate
    [of "\<lparr>X = Some (Fin 0), Y = Some (Fin 0), Z = None\<rparr>" "Fin 2" "Fin 2" "Fin 3" "Fin 3"]
  by (simp add: js_sub_def)


section \<open>Properties of expression evaluation\<close>

lemma eval_value_env:
  "machine_status (snd (eval_value s v)) = machine_status s \<and>
   sbp_settings (snd (eval_value s v)) = sbp_settings s \<and>
   user_vars (snd (eval_value s v)) = user_vars s"
  by (simp add: eval_value_def Let_def)

lemma eval_env:
  "eval s e = Inr (v, s') \<Longrightarrow>
     machine_status s' = machine_status s \<and> sbp_settings s' = sbp_settings s \<and>
     user_vars s' = user_vars s"
proof (induction e arbitrary: s v s')
  case (Leaf l)
  then show ?case
  proof (cases l)
    case (LNum n)
    with Leaf show ?thesis by simp
  next
    case (LStr w)
    with Leaf have "s' = snd (eval_value s w)" by (simp add: prod_eq_iff)
    then show ?thesis by (simp add: eval_value_env)
  qed
next
  case (BinOp op l r)
  from BinOp.prems obtain f a s1 b where
    l: "eval s l = Inr (a, s1)" and r: "eval s1 r = Inr (b, s')"
    by (auto split: option.splits sum.splits)
  from BinOp.IH(1)[OF l] BinOp.IH(2)[OF r] show ?case by simp
qed

lemma evaluateSystemVariable_env:
  assumes "machine_status s' = machine_status s" "sbp_settings s' = sbp_settings s"
  shows "evaluateSystemVariable s' v = evaluateSystemVariable s v"
  unfolding evaluateSystemVariable_def assms by (rule refl)

lemma evaluateUserVariable_env:
  assumes "user_vars s' = user_vars s"
  shows "evaluateUserVariable s' v = evaluateUserVariable s v"
  unfolding evaluateUserVariable_def assms by (rule refl)

lemma refs_resolve_env:
  assumes "machine_status s' = machine_status s" "sbp_settings s' = sbp_settings s"
    "user_vars s' = user_vars s"
  shows "refs_resolve s' e = refs_resolve s e"
proof (induction e)
  case (Leaf l)
  show ?case
    by (cases l)
       (simp_all add: unknown_sysvar_def undefined_uservar_def
          evaluateSystemVariable_env[OF assms(1,2)] evaluateUserVariable_env[OF assms(3)])
next
  case (BinOp op l r)
  then show ?case by simp
qed

lemma eval_value_kind:
  assumes "\<not> unknown_sysvar s v" "\<not> undefined_uservar s v"
  shows "is_number (fst (eval_value s v))"
  using assms by (simp add: eval_value_def Let_def unknown_sysvar_def undefined_uservar_def)

lemma binop_cases:
  assumes "binop op = Some f"
  shows "(op, f) \<in> set operators"
  using assms unfolding binop_def by (rule map_of_SomeD)

lemma binop_kind:
  assumes "binop op = Some f"
  shows "if is_comparison op then is_boolean (f a b) else is_number (f a b)"
proof -
  from binop_cases[OF assms] have
    "op = ''+'' \<and> f = (\<lambda>a b. JNum (js_add (to_number a) (to_number b))) \<or>
     op = ''-'' \<and> f = (\<lambda>a b. JNum (js_sub (to_number a) (to_number b))) \<or>
     op = ''*'' \<and> f = (\<lambda>a b. JNum (js_mul (to_number a) (to_number b))) \<or>
     op = ''/'' \<and> f = (\<lambda>a b. JNum (js_div (to_number a) (to_number b))) \<or>
     op = ''>'' \<and> f = (\<lambda>a b. JBool (js_lt (to_number b) (to_number a))) \<or>
     op = ''<'' \<and> f = (\<lambda>a b. JBool (js_lt (to_number a) (to_number b))) \<or>
     op = ''>='' \<and> f = (\<lambda>a b. JBool (js_le (to_number b) (to_number a))) \<or>
     op = ''<='' \<and> f = (\<lambda>a b. JBool (js_le (to_number a) (to_number b))) \<or>
     op = ''=='' \<and> f = (\<lambda>a b. JBool (js_loose_eq a b)) \<or>
     op = ''='' \<and> f = (\<lambda>a b. JBool (js_loose_eq a b)) \<or>
     op = ''!='' \<and> f = (\<lambda>a b. JBool (\<not> js_loose_eq a b))"
    unfolding operators_def by simp
  then show ?thesis
    by (elim disjE conjE) (simp_all add: is_comparison_def)
qed

lemma eval_returns:
  "refs_resolve s e \<Longrightarrow> ops_supported e \<Longrightarrow>
     \<exists>v s'. eval s e = Inr (v, s') \<and> (if root_is_comparison e then is_boolean v else is_number v)"
proof (induction e arbitrary: s)
  case (Leaf l)
  show ?case
  proof (cases l)
    case (LNum n)
    then show ?thesis by simp
  next
    case (LStr w)
    with Leaf.prems have "is_number (fst (eval_value s w))" by (simp add: eval_value_kind)
    with LStr show ?thesis by (cases "eval_value s w") simp
  qed
next
  case (BinOp op l r)
  from BinOp.prems(2) obtain f where f: "binop op = Some f" by auto
  from BinOp.prems have rl: "refs_resolve s l" and sl: "ops_supported l"
    and rr: "refs_resolve s r" and sr: "ops_supported r" by simp_all
  from BinOp.IH(1)[OF rl sl] obtain a s1 where l: "eval s l = Inr (a, s1)" by blast
  from eval_env[OF l] have "refs_resolve s1 r = refs_resolve s r"
    by (intro refs_resolve_env) simp_all
  with rr have "refs_resolve s1 r" by simp
  from BinOp.IH(2)[OF this sr] obtain b s2 where r: "eval s1 r = Inr (b, s2)" by blast
  from binop_kind[OF f, of a b] show ?case by (simp add: f l r)
qed

lemma eval_returns_supported:
  "eval s e = Inr (v, s') \<Longrightarrow> ops_supported e"
proof (induction e arbitrary: s v s')
  case (Leaf l)
  show ?case by simp
next
  case (BinOp op l r)
  from BinOp.prems obtain f a s1 b where
    "binop op = Some f" and l: "eval s l = Inr (a, s1)" and r: "eval s1 r = Inr (b, s')"
    by (auto split: option.splits sum.splits)
  with BinOp.IH(1)[OF l] BinOp.IH(2)[OF r] show ?case by simp
qed

lemma sysvar_1: "evaluateSystemVariable s ''%(1)'' = posx (machine_status s)"
  by (simp add: evaluateSystemVariable_def is_digit_def parseInt_def digit_val_def)

lemma uservar_1: "evaluateUserVariable s ''%(1)'' = JUndefined"
  by (simp add: evaluateUserVariable_def is_ident_start_def)

lemma SBPRuntime_fields:
  "machine_status (SBPRuntime st cfg) = st"
  "sbp_settings (SBPRuntime st cfg) = cfg"
  "user_vars (SBPRuntime st cfg) = Map.empty"
  "pc (SBPRuntime st cfg) = PNum 0"
  "stack (SBPRuntime st cfg) = []"
  "current_chunk (SBPRuntime st cfg) = []"
  by (simp_all add: SBPRuntime_def)

text \<open>A division by zero has a value: an infinity or \<open>NaN\<close>.\<close>

lemma js_div_by_zero:
  "js_div x (Fin 0) = NaN \<or> js_div x (Fin 0) = PInf \<or> js_div x (Fin 0) = NInf"
  by (cases x) (simp_all add: js_signed_inf_def)

text \<open>
  C5, as stated: evaluation raises an error on a division by zero. It does not: \<open>1 / 0\<close>
  evaluates to \<open>Infinity\<close>.
\<close>

theorem eval_division_by_zero_counterexample:
  "eval (SBPRuntime status0 settings0) (BinOp ''/'' (Leaf (LNum (Fin 1))) (Leaf (LNum (Fin 0))))
     = Inr (JNum PInf, SBPRuntime status0 settings0)"
  by (simp add: binop_def operators_def js_signed_inf_def)

text \<open>
  C5, amended: on an expression whose leaves reference no unknown system variable and no
  undefined user variable, evaluation raises an error exactly when the expression holds an
  operator outside \<open>+ - * / > < >= <= == = !=\<close>; otherwise it returns a value, a boolean when
  the root is a comparison and a number when it is not. A division by zero is among the cases
  that return (an infinity or \<open>NaN\<close>).
\<close>

theorem eval_raises_exactly_on_unsupported_operator:
  assumes "refs_resolve s e"
  shows "case eval s e of
           Inl err \<Rightarrow> \<not> ops_supported e
         | Inr (v, s') \<Rightarrow>
             ops_supported e \<and> (if root_is_comparison e then is_boolean v else is_number v)"
proof (cases "eval s e")
  case (Inl err)
  with eval_returns[OF assms] show ?thesis by auto
next
  case (Inr p)
  obtain v s' where p: "p = (v, s')" by (cases p)
  from Inr p have sup: "ops_supported e" by (auto dest: eval_returns_supported)
  from eval_returns[OF assms sup] Inr p sup show ?thesis by auto
qed

theorem eval_raises_exactly_on_unsupported_operator_witness:
  "refs_resolve (SBPRuntime status0 settings0)
     (BinOp ''/'' (Leaf (LStr ''%(1)'')) (Leaf (LNum (Fin 0)))) \<and>
   (case eval (SBPRuntime status0 settings0)
            (BinOp ''/'' (Leaf (LStr ''%(1)'')) (Leaf (LNum (Fin 0)))) of
      Inl err \<Rightarrow> \<not> ops_supported (BinOp ''/'' (Leaf (LStr ''%(1)'')) (Leaf (LNum (Fin 0))))
    | Inr (v, s') \<Rightarrow>
        ops_supported (BinOp ''/'' (Leaf (LStr ''%(1)'')) (Leaf (LNum (Fin 0)))) \<and>
        (if root_is_comparison (BinOp ''/'' (Leaf (LStr ''%(1)'')) (Leaf (LNum (Fin 0))))
         then is_boolean v else is_number v)) \<and>
   eval (SBPRuntime status0 settings0) (BinOp ''/'' (Leaf (LStr ''%(1)'')) (Leaf (LNum (Fin 0))))
     = Inr (JNum PInf, (SBPRuntime status0 settings0)\<lparr>sysvar_evaluated := True\<rparr>)"
proof -
  have r: "refs_resolve (SBPRuntime status0 settings0)
             (BinOp ''/'' (Leaf (LStr ''%(1)'')) (Leaf (LNum (Fin 0))))"
    by (simp add: unknown_sysvar_def undefined_uservar_def sysvar_1 uservar_1
          SBPRuntime_fields status0_def)
  have e: "eval (SBPRuntime status0 settings0)
             (BinOp ''/'' (Leaf (LStr ''%(1)'')) (Leaf (LNum (Fin 0))))
           = Inr (JNum PInf, (SBPRuntime status0 settings0)\<lparr>sysvar_evaluated := True\<rparr>)"
    by (simp add: binop_def operators_def js_signed_inf_def sysvar_1 eval_value_def Let_def
          SBPRuntime_fields status0_def)
  from r e eval_raises_exactly_on_unsupported_operator[OF r] show ?thesis by blast
qed


section \<open>Properties of the stack-break classifier\<close>

text \<open>
  What the classifier decides: a command breaks the stack exactly when its handler takes a
  callback, and no other statement does.
\<close>

lemma breaksStack_cmd:
  "breaksStack this (Some (Cmd name args)) = Inr (this name = Some Breaking)"
  by (simp split: option.splits handler.splits)

lemma breaksStack_other:
  assumes "\<And>name args. st \<noteq> Cmd name args"
  shows "breaksStack this (Some st) = Inr False"
  using assms by (cases st) auto


text \<open>
  C1 says that the classifier returns true whenever an expression evaluated for the statement
  reads a system variable. The code does not look at expressions: the command \<open>MX,%(1)\<close>,
  the assignment \<open>&a = %(1)\<close> and the conditional \<open>IF %(1) > 0 THEN GOTO top\<close> are all
  classified as not breaking, although \<open>exprBreaksStack\<close> recognises \<open>%(1)\<close> and executing the
  command reads the X position (\<open>sysvar_evaluated\<close> is set, the line carries 7.5).
\<close>

theorem breaksStack_ignores_system_variables:
  "breaksStack SBPRuntime_prototype (Some (Cmd ''MX'' [Some (Leaf (LStr ''%(1)''))]))
     = Inr False \<and>
   breaksStack SBPRuntime_prototype (Some (Assign ''&a'' (Leaf (LStr ''%(1)'')))) = Inr False \<and>
   breaksStack SBPRuntime_prototype
     (Some (Cond (BinOp ''>'' (Leaf (LStr ''%(1)'')) (Leaf (LNum (Fin 0)))) (Goto ''top'')))
     = Inr False \<and>
   exprBreaksStack (Leaf (LStr ''%(1)'')) = True \<and>
   execute SBPRuntime_prototype sb3_commands0 (Some (Cmd ''MX'' [Some (Leaf (LStr ''%(1)''))]))
       (SBPRuntime status0 settings0)
     = Inr (Some False,
            (SBPRuntime status0 settings0)
              \<lparr>sysvar_evaluated := True,
               current_chunk := [[Txt ''G1 X'', Val (JNum (Fin (15 / 2))), Txt '' F'',
                                  Val (JNum (Fin 300))]],
               cmd_posx := JNum (Fin (15 / 2)),
               pc := PNum 1\<rparr>)"
  by (simp add: SBPRuntime_prototype_def sb3_commands0_def executeCommand_def
        evaluateArguments_def eval_value_def Let_def sysvar_1 MX_def emit_gcode_def arg_at_def
        times60_def SBPRuntime_def status0_def settings0_def)


section \<open>Properties of the execution engine\<close>

text \<open>
  \<open>Gosub\<close> and \<open>Return\<close> on any state: the jump, the pushed entry, and the pop; a \<open>Goto\<close> to
  the name of an inherited property. A \<open>Gosub\<close> followed by a \<open>Return\<close> leaves the stack as
  it was and the program counter at the array holding the label index plus one.
\<close>

lemma execute_gosub:
  assumes "label_index s l = Some i"
  shows "execute this cmds (Some (Gosub l)) s
           = Inr (Some False, s\<lparr>pc := PNum i, stack := stack s @ [PArr (i + 1)]\<rparr>)"
  using assms by simp

lemma execute_return_pops_top:
  "execute this cmds (Some Return) (s\<lparr>stack := st @ [a]\<rparr>)
     = Inr (Some False, s\<lparr>stack := st, pc := a\<rparr>)"
  by (simp add: array_truthy_def pop_def)

lemma execute_goto_inherited:
  "execute this cmds (Some (Goto ''constructor'')) (s\<lparr>label_index := Map.empty\<rparr>)
     = Inr (Some False, s\<lparr>label_index := Map.empty, pc := PObj ''constructor''\<rparr>)"
  by (simp add: Object_prototype_keys_def)

lemma gosub_then_return:
  assumes "label_index s l = Some i"
    and "execute this cmds (Some (Gosub l)) s = Inr (r1, s1)"
    and "execute this cmds (Some Return) s1 = Inr (r2, s2)"
  shows "stack s2 = stack s \<and> pc s2 = PArr (i + 1)"
  using assms by (auto simp: array_truthy_def pop_def)


text \<open>
  C2 says that \<open>Gosub\<close> pushes PC+1, the index after the \<open>Gosub\<close>, and then jumps, so that
  \<open>Return\<close> resumes after the \<open>Gosub\<close>. The code jumps first and pushes afterwards, and what it
  pushes is the one-element array \<open>[label index + 1]\<close>. In the program
  \<open>GOSUB sub / END / sub: / MX,1 / RETURN\<close> (the label at index 2) the \<open>Gosub\<close> at index 0
  pushes \<open>[3]\<close>, not 1, and the \<open>Return\<close> at index 4 sets the program counter to \<open>[3]\<close>.
\<close>

theorem gosub_pushes_label_index_plus_1:
  "execute this cmds (Some (Gosub ''sub''))
       ((SBPRuntime status0 settings0)\<lparr>label_index := [''sub'' \<mapsto> 2]\<rparr>)
     = Inr (Some False,
            (SBPRuntime status0 settings0)
              \<lparr>label_index := [''sub'' \<mapsto> 2], pc := PNum 2, stack := [PArr 3]\<rparr>) \<and>
   execute this cmds (Some Return)
       ((SBPRuntime status0 settings0)
          \<lparr>label_index := [''sub'' \<mapsto> 2], pc := PNum 4, stack := [PArr 3]\<rparr>)
     = Inr (Some False,
            (SBPRuntime status0 settings0)
              \<lparr>label_index := [''sub'' \<mapsto> 2], pc := PArr 3, stack := []\<rparr>)"
  by (simp add: SBPRuntime_def array_truthy_def pop_def)

text \<open>
  C6 says that \<open>Return\<close> on an empty stack raises an error. The guard of the code is
  \<open>if(this.stack)\<close>, and an empty array is truthy: the \<open>throw\<close> is never reached, \<open>pop\<close> gives
  \<open>undefined\<close> and that becomes the program counter.
\<close>

theorem return_on_empty_stack_does_not_raise:
  "execute this cmds (Some Return) (s\<lparr>stack := []\<rparr>)
     = Inr (Some False, s\<lparr>stack := [], pc := PUndefined\<rparr>)"
  by (simp add: array_truthy_def pop_def)

text \<open>
  C10, as stated: executing a falsy statement increments PC by exactly 1. That holds only
  while PC is a number. After the \<open>Gosub\<close> and \<open>Return\<close> of the example above the program
  counter is the array \<open>[3]\<close>, and \<open>this.pc += 1\<close> turns it into the string \<open>31\<close>.
\<close>

theorem execute_blank_statement_counterexample:
  "execute SBPRuntime_prototype sb3_commands0 None
       ((SBPRuntime status0 settings0)
          \<lparr>label_index := [''sub'' \<mapsto> 2], pc := PArr 3, stack := []\<rparr>)
     = Inr (None,
            (SBPRuntime status0 settings0)
              \<lparr>label_index := [''sub'' \<mapsto> 2], pc := PStr ''31'', stack := []\<rparr>)"
  by (simp add: SBPRuntime_def)

text \<open>
  C10, amended: executing a blank statement (a falsy entry, or the comment that an empty
  line parses to) changes nothing but the program counter, whatever the program counter
  holds: the stack, the user variables, the pending chunk, the settings and every commanded
  position are as before, and so is every other field. The program counter gets \<open>+= 1\<close>;
  when it is a number \<open>n\<close>, it becomes \<open>n + 1\<close>.
\<close>

theorem execute_blank_statement:
  assumes "blank_statement c"
  shows "\<exists>r s'. execute this cmds c s = Inr (r, s') \<and>
           s' = s\<lparr>pc := pc_plus_1 (pc s)\<rparr> \<and>
           stack s' = stack s \<and> user_vars s' = user_vars s \<and>
           current_chunk s' = current_chunk s \<and> sbp_settings s' = sbp_settings s \<and>
           cmd_posx s' = cmd_posx s \<and> cmd_posy s' = cmd_posy s \<and> cmd_posz s' = cmd_posz s \<and>
           cmd_posa s' = cmd_posa s \<and> cmd_posb s' = cmd_posb s \<and> cmd_posc s' = cmd_posc s \<and>
           (\<forall>n. pc s = PNum n \<longrightarrow> pc s' = PNum (n + 1))"
proof (cases c)
  case None
  then show ?thesis by simp
next
  case (Some st)
  with assms have "st = Comment" by (cases st) simp_all
  with Some show ?thesis by simp
qed

theorem execute_blank_statement_witness:
  "blank_statement (Some Comment) \<and> blank_statement None \<and>
   pc runtime1 = PNum 1 \<and>
   stack runtime1 = [PArr 5] \<and>
   user_vars runtime1 ''&depth'' = Some (JNum (Fin 2)) \<and>
   length (current_chunk runtime1) = 1 \<and>
   cmd_posz runtime1 = JNum (Fin (- 1)) \<and>
   execute SBPRuntime_prototype sb3_commands0 (Some Comment) runtime1
     = Inr (Some False, runtime1\<lparr>pc := PNum 2\<rparr>) \<and>
   execute SBPRuntime_prototype sb3_commands0 None (runtime1\<lparr>pc := PNum 2\<rparr>)
     = Inr (None, runtime1\<lparr>pc := PNum 3\<rparr>)"
proof -
  have b1: "blank_statement (Some Comment)" and b2: "blank_statement None" by simp_all
  have p1: "pc runtime1 = PNum 1" by (simp add: runtime1_def)
  from execute_blank_statement[OF b1, of SBPRuntime_prototype sb3_commands0 runtime1] p1
  have e1: "execute SBPRuntime_prototype sb3_commands0 (Some Comment) runtime1
              = Inr (Some False, runtime1\<lparr>pc := PNum 2\<rparr>)"
    by auto
  from execute_blank_statement
         [OF b2, of SBPRuntime_prototype sb3_commands0 "runtime1\<lparr>pc := PNum 2\<rparr>"]
  have e2: "execute SBPRuntime_prototype sb3_commands0 None (runtime1\<lparr>pc := PNum 2\<rparr>)
              = Inr (None, runtime1\<lparr>pc := PNum 3\<rparr>)"
    by auto
  have f: "stack runtime1 = [PArr 5]" "user_vars runtime1 ''&depth'' = Some (JNum (Fin 2))"
    "length (current_chunk runtime1) = 1" "cmd_posz runtime1 = JNum (Fin (- 1))"
    by (simp_all add: runtime1_def)
  from b1 b2 p1 f e1 e2 show ?thesis by blast
qed


section \<open>Properties of program analysis\<close>

text \<open>
  The reference pass on a \<open>Cond\<close>: whatever the then-branch is, \<open>in\<close> must find its \<open>label\<close>
  field (read as \<open>undefined\<close> when it has none) in the index.
\<close>

lemma analyzeGOTOs_cond:
  assumes "\<not> has_key idx (as_text (label_field st))"
  shows "analyzeGOTOs_from i (Some (Cond c st) # rest) idx
           = Some (UndefinedLabel (as_text (label_field st)) (i + 1))"
  using assms by (simp add: check_label_def)

text \<open>
  The inherited properties in the analysis: a label named \<open>toString\<close> is reported as a
  duplicate, and a \<open>GOTO constructor\<close> passes without any label.
\<close>

lemma analyze_inherited_properties:
  "analyze [Some (Label ''toString'')] = Inl DuplicateLabel"
  "analyze [Some (Goto ''constructor'')] = Inr Map.empty"
  by (simp_all add: analyze_def analyzeLabels_def analyzeGOTOs_def check_label_def has_key_def
        Object_prototype_keys_def)


text \<open>
  C7 says that analysis fails exactly when a label is duplicated or a \<open>Goto\<close>/\<open>Gosub\<close> (also
  as the then-branch of a \<open>Cond\<close>) names an absent label. The code checks the \<open>label\<close> field of
  the then-branch of every \<open>Cond\<close>, whatever the branch is: the one-line program
  \<open>IF 1 < 2 THEN MX,1\<close> has no label and no branch, and analysis fails on it with
  \<open>Undefined label undefined on line 1\<close>.
\<close>

theorem analyze_rejects_cond_without_branch:
  "analyze [Some (Cond (BinOp ''<'' (Leaf (LNum (Fin 1))) (Leaf (LNum (Fin 2))))
                       (Cmd ''MX'' [Some (Leaf (LNum (Fin 1)))]))]
     = Inl (UndefinedLabel ''undefined'' 1)"
  by (simp add: analyze_def analyzeLabels_def analyzeGOTOs_def check_label_def has_key_def
        Object_prototype_keys_def)


section \<open>Properties of the command handlers\<close>

text \<open>
  The step-over of a pocketing \<open>CG\<close> is the same for every runtime, and the feed word (the last
  piece of the emitted line) of each move handler.
\<close>

lemma CG_stepOver_pocket:
  assumes "js_loose_eq (arg_at args 11) (JNum (Fin 2))"
  shows "CG_stepOver args s = Some (Fin (9 / 40))"
proof -
  from assms have "arg_at args 11 \<noteq> JUndefined" by auto
  with assms show ?thesis
    by (simp add: CG_stepOver_def CG_settings_def js_sub_def Let_def)
qed

lemma emit_with_feed_last:
  "last (last (current_chunk (emit_with_feed f os))) = Val f"
  by (simp add: emit_with_feed_def emit_gcode_def)

lemma modal_move_feed:
  "last (last (current_chunk (M2 args s))) = Val (times60 (movexy_speed (sbp_settings s)))"
  "last (last (current_chunk (M3 args s))) = Val (times60 (movexy_speed (sbp_settings s)))"
  "last (last (current_chunk (M4 args s))) = Val (times60 (movexy_speed (sbp_settings s)))"
  "last (last (current_chunk (M5 args s))) = Val (times60 (movexy_speed (sbp_settings s)))"
  "last (last (current_chunk (M6 args s))) = Val (movexy_speed (sbp_settings s))"
  "last (last (current_chunk (MH args s))) = Val (movexy_speed (sbp_settings s))"
  by (simp_all add: M2_def M3_def M4_def M5_def M6_def MH_def emit_with_feed_last emit_gcode_def)

lemma axis_move_feed:
  "last (last (current_chunk (MX args s))) = Val (times60 (movexy_speed (sbp_settings s)))"
  "last (last (current_chunk (MY args s))) = Val (times60 (movexy_speed (sbp_settings s)))"
  "last (last (current_chunk (MZ args s))) = Val (times60 (movez_speed (sbp_settings s)))"
  "last (last (current_chunk (MA args s))) = Val (times60 (movea_speed (sbp_settings s)))"
  "last (last (current_chunk (MB args s))) = Val (times60 (moveb_speed (sbp_settings s)))"
  "last (last (current_chunk (MC args s))) = Val (times60 (movec_speed (sbp_settings s)))"
  by (simp_all add: MX_def MY_def MZ_def MA_def MB_def MC_def emit_gcode_def)


text \<open>
  C3 says that \<open>CG\<close> with option 2 takes its step-over from the cutter diameter and the pocket
  overlap that \<open>VC\<close> configured. \<open>CG\<close> overwrites both settings first: after \<open>VC\<close> has set a
  diameter of 0.5 and an overlap of 20, the step-over of \<open>CG\<close> is 0.25 * 0.9 = 0.225, not
  0.5 * (1 - 20/100) = 0.4.
\<close>

theorem CG_stepOver_ignores_VC_settings:
  "cutterDia (sbp_settings
     (VC [JNum (Fin (1 / 2)), JUndefined, JUndefined, JUndefined, JUndefined, JNum (Fin 20)] s))
     = JNum (Fin (1 / 2)) \<and>
   pocketOverlap (sbp_settings
     (VC [JNum (Fin (1 / 2)), JUndefined, JUndefined, JUndefined, JUndefined, JNum (Fin 20)] s))
     = JNum (Fin 20) \<and>
   CG_stepOver [JUndefined, JUndefined, JUndefined, JUndefined, JUndefined, JUndefined,
                JUndefined, JUndefined, JUndefined, JUndefined, JUndefined, JNum (Fin 2)]
     (VC [JNum (Fin (1 / 2)), JUndefined, JUndefined, JUndefined, JUndefined, JNum (Fin 20)] s)
     = Some (Fin (9 / 40)) \<and>
   js_mul (Fin (1 / 2)) (js_sub (Fin 1) (js_div (Fin 20) (Fin 100))) = Fin (2 / 5)"
  by (simp add: VC_def CG_stepOver_def CG_settings_def set_if_defined_def arg_at_def js_sub_def
        js_num_eq_def Let_def)

text \<open>
  C4 says that every G1 line of the move handlers carries a feed of 60 times the speed
  setting. \<open>M6\<close> and \<open>MH\<close> write the speed itself: with a move speed of 5 they emit \<open>F5\<close>,
  where \<open>M5\<close> on the same arguments emits \<open>F300\<close>.
\<close>

theorem M6_and_MH_feed_is_not_times_60:
  "current_chunk (M6 [JNum (Fin 1), JNum (Fin 2)] (SBPRuntime status0 settings0))
     = [[Txt ''G1'', Txt ''X'', Val (JNum (Fin 1)), Txt ''Y'', Val (JNum (Fin 2)),
         Txt ''F'', Val (JNum (Fin 5))]] \<and>
   current_chunk (MH [] (SBPRuntime status0 settings0))
     = [[Txt ''G1X0Y0'', Txt '' F'', Val (JNum (Fin 5))]] \<and>
   current_chunk (M5 [JNum (Fin 1), JNum (Fin 2)] (SBPRuntime status0 settings0))
     = [[Txt ''G1'', Txt ''X'', Val (JNum (Fin 1)), Txt ''Y'', Val (JNum (Fin 2)),
         Txt ''F'', Val (JNum (Fin 300))]]"
  by (simp add: M6_def MH_def M5_def emit_with_feed_def axis_word_def arg_at_def emit_gcode_def
        times60_def set_cmd_posx_def set_cmd_posy_def SBPRuntime_fields settings0_def)

end
